theory Spec2Isabelle
  imports Complex_Main "HOL-Library.Log_Nat"
begin

section \<open>Data model\<close>

text \<open>
  The enum of \<^verbatim>\<open>src/lib/blockchain.ts\<close> (lines 35-39) has three members:
  \<^verbatim>\<open>Public = 0, Restricted = 1, Private = 2\<close>.
\<close>

datatype AccessLevel = Public | Restricted | Private

text \<open>
  A TypeScript enum is an object at run time, and \<^verbatim>\<open>AccessLevel.X\<close> is a property read
  on it: the member's value when the enum declares \<^verbatim>\<open>X\<close>, \<^verbatim>\<open>undefined\<close> (here
  \<open>None\<close>) otherwise. The project service reads \<^verbatim>\<open>AccessLevel.Public\<close> and
  \<^verbatim>\<open>AccessLevel.Institution\<close>; the enum declares no member \<^verbatim>\<open>Institution\<close>.
\<close>

definition AccessLevel_member :: "string \<Rightarrow> AccessLevel option" where
  "AccessLevel_member n =
     (if n = ''Public'' then Some Public
      else if n = ''Restricted'' then Some Restricted
      else if n = ''Private'' then Some Private
      else None)"

text \<open>
  The record the project service builds and reads (\<^verbatim>\<open>createProject\<close>, lines 75-87, and
  \<^verbatim>\<open>project.aiSummary\<close>, line 96). The numbers of a record are doubles that hold
  integers, so the fields are \<open>int\<close>; arithmetic on them rounds as the doubles do (see
  \<open>js_plus\<close> below). The field \<^verbatim>\<open>id\<close> is \<open>project_id\<close> here, since \<open>id\<close> is the identity
  function of HOL. An absent \<^verbatim>\<open>aiSummary\<close> is \<open>None\<close>.
\<close>

record ProjectData =
  project_id :: int
  title :: string
  description :: string
  departmentId :: int
  institutionId :: int
  year :: int
  accessLevel :: AccessLevel
  ipfsHash :: string
  authors :: "string list"
  uploadDate :: int
  creatorAddress :: string
  aiSummary :: "string option"

text \<open>
  What \<^verbatim>\<open>getStudentByWallet\<close> returns, as far as the project service reads it:
  \<^verbatim>\<open>student.departmentId\<close> and \<^verbatim>\<open>student.institutionId\<close>. The student service itself
  is a collaborator; its lookup is a parameter, \<open>None\<close> for an identity it does not know.
\<close>

record Student =
  student_departmentId :: int
  student_institutionId :: int

text \<open>
  The collaborators and the ambient values of one run: the directory lookup, the sequence
  of values \<^verbatim>\<open>Math.random()\<close> returns (doubles, which are rationals; the \<open>k\<close>-th call
  returns \<open>random e k\<close>), \<^verbatim>\<open>Number.prototype.toString(16)\<close>, \<^verbatim>\<open>Date.now()\<close>, and the
  largest number of arguments the engine accepts in one call: a spread call with more
  raises \<^verbatim>\<open>RangeError\<close>.
\<close>

record env =
  getStudentByWallet :: "string \<Rightarrow> Student option"
  random :: "nat \<Rightarrow> rat"
  numberToString16 :: "rat \<Rightarrow> string"
  dateNow :: int
  maxArguments :: nat

datatype error = RangeError

text \<open>
  What awaiting a promise gives: it resolves with a value, it rejects with an error, or it
  never settles (\<open>Pending\<close>), and then the code after the \<^verbatim>\<open>await\<close> never runs. The
  summarizer resolves with a text or with nothing (\<open>None\<close>).
\<close>

datatype 'a settled = Resolved 'a | Rejected string | Pending

section \<open>JavaScript primitives\<close>

text \<open>A string is truthy unless it is empty.\<close>

definition truthy :: "string \<Rightarrow> bool" where
  "truthy s = (s \<noteq> [])"

text \<open>\<^verbatim>\<open>s.charAt(i)\<close>: the character at \<open>i\<close> as a string, the empty string out of range.\<close>

definition charAt :: "string \<Rightarrow> int \<Rightarrow> string" where
  "charAt s i = (if 0 \<le> i \<and> i < int (length s) then [s ! nat i] else [])"

text \<open>
  \<^verbatim>\<open>s.substring(a, b)\<close> on indices that are natural numbers: both are clamped to the
  length and swapped when \<open>a > b\<close>.
\<close>

definition substring :: "string \<Rightarrow> nat \<Rightarrow> nat \<Rightarrow> string" where
  "substring s a b = take (max a b - min a b) (drop (min a b) s)"

subsection \<open>Numbers\<close>

text \<open>
  A number is an IEEE 754 double: a rational with a significand of 53 bits. The result of
  \<^verbatim>\<open>+\<close> and \<^verbatim>\<open>*\<close> is the exact result rounded to the nearest double, a tie going to
  the double with the even significand. \<open>quantum x\<close> is the distance between the doubles
  around \<open>x\<close>: \<open>2\<close> to the power of the exponent of \<open>x\<close> less 52, and \<open>2\<close> to the \<open>-1074\<close> in
  the subnormal range. Magnitudes of \<open>2\<close> to the 1024 and more (the infinities), which no
  call of the project service reaches from doubles, are not modelled.
\<close>

definition pow2 :: "int \<Rightarrow> rat" where
  "pow2 e = (if 0 \<le> e then 2 ^ nat e else 1 / 2 ^ nat (- e))"

text \<open>For \<open>x > 0\<close>, the exponent \<open>e\<close> with \<open>2 ^ e \<le> x < 2 ^ (e + 1)\<close>.\<close>

definition floor_log2 :: "rat \<Rightarrow> int" where
  "floor_log2 x = (if 1 \<le> x then bitlen \<lfloor>x\<rfloor> - 1 else - bitlen (\<lceil>1 / x\<rceil> - 1))"

definition round_ties_even :: "rat \<Rightarrow> int" where
  "round_ties_even y =
     (let f = \<lfloor>y\<rfloor>; d = y - of_int f
      in if d < 1 / 2 then f
         else if 1 / 2 < d then f + 1
         else if even f then f else f + 1)"

definition quantum :: "rat \<Rightarrow> rat" where
  "quantum x = pow2 (max (floor_log2 \<bar>x\<bar> - 52) (- 1074))"

definition round_to_double :: "rat \<Rightarrow> rat" where
  "round_to_double x =
     (if x = 0 then 0
      else sgn x * of_int (round_ties_even (\<bar>x\<bar> / quantum x)) * quantum x)"

definition is_double :: "rat \<Rightarrow> bool" where
  "is_double x = (round_to_double x = x \<and> \<bar>x\<bar> < 2 ^ 1024)"

definition js_plus :: "rat \<Rightarrow> rat \<Rightarrow> rat" where
  "js_plus a b = round_to_double (a + b)"

definition js_times :: "rat \<Rightarrow> rat \<Rightarrow> rat" where
  "js_times a b = round_to_double (a * b)"

section \<open>The project service\<close>

subsection \<open>\<^verbatim>\<open>generateMockIpfsHash\<close>\<close>

definition characters :: string where
  "characters = ''ABCDEFGHIJKLMNOPQRSTUVWXYZabcdefghijklmnopqrstuvwxyz0123456789''"

text \<open>
  The loop of lines 40-42, from counter \<open>i\<close>; \<open>k\<close> counts the calls of
  \<^verbatim>\<open>Math.random()\<close> made so far and is returned with the string. The index is
  \<^verbatim>\<open>Math.floor\<close> of the product as the doubles give it.
\<close>

function generateMockIpfsHash_loop :: "(nat \<Rightarrow> rat) \<Rightarrow> nat \<Rightarrow> nat \<Rightarrow> string \<Rightarrow> string \<times> nat" where
  "generateMockIpfsHash_loop rnd k i result =
     (if i < 44
      then generateMockIpfsHash_loop rnd (Suc k) (Suc i)
             (result @ charAt characters \<lfloor>js_times (rnd k) (of_nat (length characters))\<rfloor>)
      else (result, k))"
  by pat_completeness auto
termination
  by (relation "measure (\<lambda>(rnd, k, i, result). 44 - i)") auto

declare generateMockIpfsHash_loop.simps [simp del]

definition generateMockIpfsHash :: "(nat \<Rightarrow> rat) \<Rightarrow> nat \<Rightarrow> string \<times> nat" where
  "generateMockIpfsHash rnd k = generateMockIpfsHash_loop rnd k 0 ''Qm''"

subsection \<open>\<^verbatim>\<open>createProject\<close>\<close>

text \<open>
  \<open>projects\<close> is the store's collection when the call is made. The two optional
  parameters default to the empty string. \<^verbatim>\<open>Math.max(...ids, 0)\<close> is a call with one
  argument for each record and one more: beyond the engine's bound it raises
  \<^verbatim>\<open>RangeError\<close>, before anything else is done; otherwise it is the fold of \<open>max\<close> over
  the ids from 0, which is exact. \<^verbatim>\<open>maxId + 1\<close> is the sum as the doubles give it, an
  integer again. The result is the record and the number of random draws made.
\<close>

definition createProject ::
  "env \<Rightarrow> ProjectData list \<Rightarrow> nat \<Rightarrow> string \<Rightarrow> string \<Rightarrow> int \<Rightarrow> int \<Rightarrow> AccessLevel \<Rightarrow>
   string option \<Rightarrow> string option \<Rightarrow> error + ProjectData \<times> nat" where
  "createProject e projects k title' description' departmentId' year' accessLevel'
     ipfsHashArg authorAddressArg =
     (let ipfsHash' = (case ipfsHashArg of None \<Rightarrow> [] | Some h \<Rightarrow> h);
          authorAddress = (case authorAddressArg of None \<Rightarrow> [] | Some a \<Rightarrow> a)
      in if maxArguments e < length projects + 1 then Inl RangeError
         else
          (let maxId = fold max (map project_id projects) 0;
               newId = \<lfloor>js_plus (of_int maxId) 1\<rfloor>;
               (hash, k1) = (if truthy ipfsHash' then (ipfsHash', k)
                             else generateMockIpfsHash (random e) k);
               (author, k2) =
                 (if truthy authorAddress then (authorAddress, k1)
                  else (''0x'' @ substring (numberToString16 e (random e k1)) 2 42, Suc k1));
               student = getStudentByWallet e author;
               studentDepartmentId =
                 (case student of Some s \<Rightarrow> student_departmentId s | None \<Rightarrow> departmentId');
               institutionId' =
                 (case student of Some s \<Rightarrow> student_institutionId s | None \<Rightarrow> 1)
           in Inr (\<lparr>project_id = newId,
                    title = title',
                    description = description',
                    departmentId = studentDepartmentId,
                    institutionId = institutionId',
                    year = year',
                    accessLevel = accessLevel',
                    ipfsHash = hash,
                    authors = [author],
                    uploadDate = dateNow e,
                    creatorAddress = author,
                    aiSummary = None\<rparr>, k2)))"

subsection \<open>\<^verbatim>\<open>addProject\<close>\<close>

text \<open>
  \<open>generateProjectSummary\<close> gives what awaiting the summarizer's call gives. The
  \<^verbatim>\<open>catch\<close> block takes every rejection. The store's \<^verbatim>\<open>addProject\<close>, the only insertion,
  comes after the \<^verbatim>\<open>await\<close> and puts the record in front of the collection; when the
  awaited call never settles it is never reached, the returned promise stays pending and
  the store stays as it was. The result is what awaiting \<^verbatim>\<open>addProject\<close> gives, and the
  store.
\<close>

definition addProject ::
  "(ProjectData \<Rightarrow> string option settled) \<Rightarrow> ProjectData \<Rightarrow> ProjectData list \<Rightarrow>
   unit settled \<times> ProjectData list" where
  "addProject generateProjectSummary project projects =
     (if \<not> (case aiSummary project of None \<Rightarrow> False | Some s \<Rightarrow> truthy s)
      then (case generateProjectSummary project of
              Resolved summary \<Rightarrow>
                (if (case summary of None \<Rightarrow> False | Some s \<Rightarrow> truthy s)
                 then (Resolved (), project\<lparr>aiSummary := summary\<rparr> # projects)
                 else (Resolved (), project # projects))
            | Rejected error \<Rightarrow> (Resolved (), project # projects)
            | Pending \<Rightarrow> (Pending, projects))
      else (Resolved (), project # projects))"

subsection \<open>\<^verbatim>\<open>getAllProjects\<close>, \<^verbatim>\<open>getAllProjectsAdmin\<close>, \<^verbatim>\<open>getProjectById\<close>\<close>

text \<open>
  \<open>userAddress\<close> is \<open>None\<close> for \<^verbatim>\<open>null\<close> or \<^verbatim>\<open>undefined\<close>; the empty string is falsy
  as well. A comparison \<^verbatim>\<open>project.accessLevel === AccessLevel.X\<close> compares the record's
  tag with what the property read gives.
\<close>

definition getAllProjects ::
  "(string \<Rightarrow> Student option) \<Rightarrow> ProjectData list \<Rightarrow> string option \<Rightarrow> ProjectData list" where
  "getAllProjects lookup projects userAddress =
     (case userAddress of
        None \<Rightarrow>
          filter (\<lambda>project. Some (accessLevel project) = AccessLevel_member ''Public'') projects
      | Some a \<Rightarrow>
          if \<not> truthy a
          then filter (\<lambda>project. Some (accessLevel project) = AccessLevel_member ''Public'')
                 projects
          else
            (let student = lookup a in
             filter (\<lambda>project.
                if Some (accessLevel project) = AccessLevel_member ''Public'' then True
                else if a \<in> set (authors project) then True
                else if Some (accessLevel project) = AccessLevel_member ''Institution'' \<and>
                        (case student of
                           None \<Rightarrow> False
                         | Some s \<Rightarrow> institutionId project = student_institutionId s)
                     then True
                else False) projects))"

definition getAllProjectsAdmin :: "ProjectData list \<Rightarrow> ProjectData list" where
  "getAllProjectsAdmin projects = projects"

definition getProjectById ::
  "(string \<Rightarrow> Student option) \<Rightarrow> ProjectData list \<Rightarrow> int \<Rightarrow> string option \<Rightarrow>
   ProjectData option" where
  "getProjectById lookup projects i userAddress =
     (let student = (case userAddress of
                       None \<Rightarrow> None
                     | Some a \<Rightarrow> if truthy a then lookup a else None)
      in case find (\<lambda>project. project_id project = i) projects of
           None \<Rightarrow> None
         | Some project \<Rightarrow>
             if Some (accessLevel project) = AccessLevel_member ''Public'' \<or>
                (case userAddress of
                   None \<Rightarrow> False
                 | Some a \<Rightarrow> truthy a \<and> a \<in> set (authors project)) \<or>
                (Some (accessLevel project) = AccessLevel_member ''Institution'' \<and>
                 (case student of
                    None \<Rightarrow> False
                  | Some s \<Rightarrow> institutionId project = student_institutionId s))
             then Some project
             else None)"

subsection \<open>\<^verbatim>\<open>updateProject\<close>\<close>

definition updateProject :: "ProjectData \<Rightarrow> ProjectData list \<Rightarrow> ProjectData list" where
  "updateProject updatedProject projects =
     map (\<lambda>project. if project_id project = project_id updatedProject
                     then updatedProject else project) projects"

section \<open>Example inputs\<close>

text \<open>
  A directory that knows two identities, both of department 3 and institution 1; an
  environment whose random source always returns one half (\<^verbatim>\<open>(0.5).toString(16)\<close> is
  \<^verbatim>\<open>"0.8"\<close>) and whose engine takes 65536 arguments; a summarizer that rejects, one that
  resolves with a text and one that never settles.
\<close>

definition example_directory :: "string \<Rightarrow> Student option" where
  "example_directory a =
     (if a = ''0xAAA'' \<or> a = ''0xBBB''
      then Some \<lparr>student_departmentId = 3, student_institutionId = 1\<rparr>
      else None)"

definition example_env :: env where
  "example_env =
     \<lparr>getStudentByWallet = example_directory,
      random = (\<lambda>k. 1 / 2),
      numberToString16 = (\<lambda>r. ''0.8''),
      dateNow = 1700000000000,
      maxArguments = 65536\<rparr>"

definition example_failing :: "ProjectData \<Rightarrow> string option settled" where
  "example_failing p = Rejected ''unavailable''"

definition example_summarizing :: "ProjectData \<Rightarrow> string option settled" where
  "example_summarizing p = Resolved (Some ''S'')"

definition example_pending :: "ProjectData \<Rightarrow> string option settled" where
  "example_pending p = Pending"

text \<open>
  The record \<^verbatim>\<open>createProject("T", "D", 1, 2024, level, "QmX", author)\<close> builds for one of
  the two known authors when it assigns the id \<open>i\<close>; \<open>example_project\<close> is the one built
  for \<^verbatim>\<open>0xAAA\<close> on the empty store.
\<close>

definition example_record :: "int \<Rightarrow> AccessLevel \<Rightarrow> string \<Rightarrow> ProjectData" where
  "example_record i level author =
     \<lparr>project_id = i, title = ''T'', description = ''D'', departmentId = 3,
      institutionId = 1, year = 2024, accessLevel = level, ipfsHash = ''QmX'',
      authors = [author], uploadDate = 1700000000000, creatorAddress = author,
      aiSummary = None\<rparr>"

definition example_project :: "AccessLevel \<Rightarrow> ProjectData" where
  "example_project level =
     \<lparr>project_id = 1, title = ''T'', description = ''D'', departmentId = 3,
      institutionId = 1, year = 2024, accessLevel = level, ipfsHash = ''QmX'',
      authors = [''0xAAA''], uploadDate = 1700000000000, creatorAddress = ''0xAAA'',
      aiSummary = None\<rparr>"

definition example_store :: "ProjectData list" where
  "example_store = [example_project Public]"

text \<open>
  The store after two creations that overlap: \<^verbatim>\<open>0xAAA\<close> and \<^verbatim>\<open>0xBBB\<close> both call
  \<^verbatim>\<open>createProject\<close> on \<open>example_store\<close>, the first with access level \<open>level\<close> and the
  second with \<^verbatim>\<open>Private\<close>, and both records, each with the id 2, are added afterwards.
\<close>

definition example_shadowing_store :: "AccessLevel \<Rightarrow> ProjectData list" where
  "example_shadowing_store level =
     snd (addProject example_failing (example_record 2 Private ''0xBBB'')
       (snd (addProject example_failing (example_record 2 level ''0xAAA'') example_store)))"

text \<open>A store whose one record has the id \<open>2\<close> to the 53.\<close>

definition example_large_id_store :: "ProjectData list" where
  "example_large_id_store = [example_record 9007199254740992 Public ''0xAAA'']"

section \<open>Helper facts\<close>

subsection \<open>Rounding to a double\<close>

lemma pow2_pos: "0 < pow2 e"
  by (simp add: pow2_def)

lemma quantum_pos: "0 < quantum x"
  by (simp add: quantum_def pow2_pos)

lemma bitlen_one: "bitlen 1 = 1"
  by (subst compute_bitlen) simp

lemma round_ties_even_int: "round_ties_even (of_int n) = n"
  by (simp add: round_ties_even_def)

lemma round_ties_even_nonneg: "0 \<le> y \<Longrightarrow> 0 \<le> round_ties_even y"
  by (auto simp add: round_ties_even_def Let_def)

lemma round_ties_even_le: "round_ties_even y \<le> \<lfloor>y\<rfloor> + 1"
  by (simp add: round_ties_even_def Let_def)

lemma round_ties_even_floor: "y - of_int \<lfloor>y\<rfloor> < 1 / 2 \<Longrightarrow> round_ties_even y = \<lfloor>y\<rfloor>"
  by (simp add: round_ties_even_def Let_def)

lemma round_to_double_pos:
  "0 < x \<Longrightarrow> round_to_double x = of_int (round_ties_even (x / quantum x)) * quantum x"
  by (simp add: round_to_double_def)

lemma round_to_double_nonneg: "0 \<le> x \<Longrightarrow> 0 \<le> round_to_double x"
proof (cases "x = 0")
  case True
  then show ?thesis by (simp add: round_to_double_def)
next
  case False
  assume "0 \<le> x"
  with False have x: "0 < x" by simp
  have "0 \<le> x / quantum x" using x quantum_pos [of x] by simp
  then have "0 \<le> round_ties_even (x / quantum x)" by (rule round_ties_even_nonneg)
  then show ?thesis
    using quantum_pos [of x] by (simp add: round_to_double_pos [OF x])
qed

text \<open>A positive number that is a whole multiple of its quantum is a double.\<close>

lemma round_to_double_exact:
  assumes "0 < x" and "x / quantum x = of_int n"
  shows "round_to_double x = x"
proof -
  have "round_to_double x = of_int (round_ties_even (of_int n)) * quantum x"
    by (simp only: round_to_double_pos [OF assms(1)] assms(2))
  also have "\<dots> = of_int n * quantum x" by (simp only: round_ties_even_int)
  also have "\<dots> = x / quantum x * quantum x" by (simp only: assms(2))
  also have "\<dots> = x" using quantum_pos [of x] by simp
  finally show ?thesis .
qed

lemma quantum_int:
  assumes "0 < n"
  shows "quantum (of_int n) = pow2 (max (bitlen n - 53) (- 1074))"
proof -
  have "floor_log2 \<bar>of_int n\<bar> = bitlen n - 1"
    using assms by (simp add: floor_log2_def)
  then show ?thesis by (simp add: quantum_def)
qed

lemma round_to_double_small_int:
  assumes "0 < n" and "n < 2 ^ 53"
  shows "round_to_double (of_int n) = of_int n"
proof -
  have b: "bitlen n \<le> 53" using assms(2) by (simp add: bitlen_le_iff_power)
  define e where "e = max (bitlen n - 53) (- 1074)"
  have e: "e \<le> 0" using b by (simp add: e_def)
  have q: "quantum (of_int n) = 1 / 2 ^ nat (- e)"
    using e by (simp add: quantum_int [OF assms(1)] e_def [symmetric] pow2_def)
  have "rat_of_int n / quantum (of_int n) = of_int (n * 2 ^ nat (- e))"
    by (simp add: q)
  moreover have "0 < rat_of_int n" using assms(1) by simp
  ultimately show ?thesis by (rule round_to_double_exact [rotated])
qed

lemma round_to_double_two53: "round_to_double 9007199254740992 = 9007199254740992"
  by code_simp

text \<open>Adding one to an integer from 0 to \<open>2 ^ 53 - 1\<close> is exact.\<close>

lemma js_plus_one_exact:
  assumes "0 \<le> m" and "m < 2 ^ 53"
  shows "js_plus (of_int m) 1 = of_int m + 1"
  unfolding js_plus_def
proof (cases "m + 1 < 2 ^ 53")
  case True
  with assms(1) have "round_to_double (of_int (m + 1)) = of_int (m + 1)"
    by (intro round_to_double_small_int) simp_all
  then show "round_to_double (of_int m + 1) = of_int m + 1" by simp
next
  case False
  with assms(2) have "m + 1 = 9007199254740992" by simp
  then have "rat_of_int (m + 1) = 9007199254740992" by simp
  then have "rat_of_int m + 1 = 9007199254740992" by simp
  then show "round_to_double (of_int m + 1) = of_int m + 1"
    by (simp only: round_to_double_two53)
qed

text \<open>At \<open>2 ^ 53\<close> the sum is a tie and goes back to \<open>2 ^ 53\<close>.\<close>

lemma js_plus_one_two53: "js_plus 9007199254740992 1 = 9007199254740992"
  by code_simp

lemma quantum_le_one:
  assumes "0 < x" and "x < 32"
  shows "quantum x \<le> 1"
proof -
  have "floor_log2 \<bar>x\<bar> \<le> 4"
  proof (cases "1 \<le> x")
    case True
    have "\<lfloor>x\<rfloor> < 32" using assms(2) by (simp add: floor_less_iff)
    then have "bitlen \<lfloor>x\<rfloor> \<le> 5" by (simp add: bitlen_le_iff_power)
    with True assms(1) show ?thesis by (simp add: floor_log2_def)
  next
    case False
    have "0 \<le> bitlen (\<lceil>1 / x\<rceil> - 1)" by (rule bitlen_nonneg)
    with False assms(1) show ?thesis by (simp add: floor_log2_def)
  qed
  then have "max (floor_log2 \<bar>x\<bar> - 52) (- 1074) < 0" by simp
  then show ?thesis by (simp add: quantum_def pow2_def)
qed

lemma quantum_32_64:
  assumes "32 \<le> x" and "x < 64"
  shows "quantum x = 1 / 2 ^ 47"
proof -
  have lo: "32 \<le> \<lfloor>x\<rfloor>" using assms(1) by (simp add: le_floor_iff)
  have hi: "\<lfloor>x\<rfloor> < 64" using assms(2) by (simp add: floor_less_iff)
  from hi have "bitlen \<lfloor>x\<rfloor> \<le> 6" by (simp add: bitlen_le_iff_power)
  moreover from lo have "6 \<le> bitlen \<lfloor>x\<rfloor>" by (simp add: bitlen_ge_iff_power)
  ultimately have "bitlen \<lfloor>x\<rfloor> = 6" by simp
  with assms(1) have "floor_log2 \<bar>x\<bar> = 5" by (simp add: floor_log2_def)
  then show ?thesis by (simp add: quantum_def pow2_def)
qed

lemma round_to_double_le_add:
  assumes "0 < x"
  shows "round_to_double x \<le> x + quantum x"
proof -
  have "round_ties_even (x / quantum x) \<le> \<lfloor>x / quantum x\<rfloor> + 1"
    by (rule round_ties_even_le)
  then have "rat_of_int (round_ties_even (x / quantum x)) \<le> of_int (\<lfloor>x / quantum x\<rfloor> + 1)"
    by (simp only: of_int_le_iff)
  also have "\<dots> \<le> x / quantum x + 1" by simp
  finally have "rat_of_int (round_ties_even (x / quantum x)) * quantum x
      \<le> (x / quantum x + 1) * quantum x"
    using quantum_pos [of x] by (simp only: mult_le_cancel_right_pos)
  also have "\<dots> = x + quantum x"
    using quantum_pos [of x] by (simp add: field_simps)
  finally show ?thesis by (simp only: round_to_double_pos [OF assms])
qed

text \<open>
  The product of 62 and a number from 0 to the largest double below 1 rounds to a double
  below 62: from 32 on the doubles are \<open>2\<close> to the \<open>-47\<close> apart, and the product stays more
  than half of that below 62.
\<close>

lemma round_to_double_below_62:
  assumes "0 \<le> x" and "x \<le> 62 - 62 / 2 ^ 53"
  shows "round_to_double x < 62"
proof -
  consider "x = 0" | "0 < x" "x < 32" | "32 \<le> x"
    using assms(1) by linarith
  then show ?thesis
  proof cases
    case 1
    then show ?thesis by (simp add: round_to_double_def)
  next
    case 2
    have "round_to_double x \<le> x + quantum x" using 2(1) by (rule round_to_double_le_add)
    also have "\<dots> \<le> x + 1" using quantum_le_one [OF 2] by simp
    also have "\<dots> < 62" using 2(2) by simp
    finally show ?thesis .
  next
    case 3
    have x64: "x < 64" using assms(2) by simp
    have q: "quantum x = 1 / 2 ^ 47" using 3 x64 by (rule quantum_32_64)
    have pos: "0 < x" using 3 by simp
    define y where "y = x * 2 ^ 47"
    have y: "y \<le> 8725724278030336 - 31 / 32" using assms(2) by (simp add: y_def)
    have r: "round_to_double x = of_int (round_ties_even y) / 2 ^ 47"
      by (simp add: round_to_double_pos [OF pos] q y_def)
    have "round_ties_even y \<le> 8725724278030335"
    proof (cases "\<lfloor>y\<rfloor> \<le> 8725724278030334")
      case True
      with round_ties_even_le [of y] show ?thesis by linarith
    next
      case False
      have "\<lfloor>y\<rfloor> < 8725724278030336" using y by (simp add: floor_less_iff)
      with False have f: "\<lfloor>y\<rfloor> = 8725724278030335" by linarith
      have "y - of_int \<lfloor>y\<rfloor> < 1 / 2" using y by (simp add: f)
      then have "round_ties_even y = \<lfloor>y\<rfloor>" by (rule round_ties_even_floor)
      then show ?thesis by (simp add: f)
    qed
    then have "rat_of_int (round_ties_even y) \<le> 8725724278030335"
      by (metis of_int_le_iff of_int_numeral)
    then have "rat_of_int (round_ties_even y) / 2 ^ 47 \<le> 8725724278030335 / 2 ^ 47"
      by (simp add: divide_right_mono)
    also have "\<dots> < 62" by simp
    finally show ?thesis by (simp only: r)
  qed
qed

text \<open>No double lies strictly between \<open>1 - 2\<close> to the \<open>-53\<close> and 1.\<close>

lemma unit_double_bound:
  assumes "is_double r" and "0 \<le> r" and "r < 1"
  shows "r \<le> 1 - 1 / 2 ^ 53"
proof (rule ccontr)
  assume "\<not> r \<le> 1 - 1 / 2 ^ 53"
  then have big: "1 - 1 / 2 ^ 53 < r" by simp
  then have half: "1 / 2 \<le> r" by simp
  then have pos: "0 < r" by simp
  have "1 < 1 / r" using pos assms(3) by simp
  moreover have "1 / r \<le> 2" using pos half by (simp add: field_simps)
  ultimately have "\<lceil>1 / r\<rceil> = 2" by (intro ceiling_unique) simp_all
  then have "floor_log2 \<bar>r\<bar> = - 1"
    using assms(3) pos by (simp add: floor_log2_def bitlen_one)
  then have q: "quantum r = 1 / 2 ^ 53" by (simp add: quantum_def pow2_def)
  define n where "n = round_ties_even (r * 2 ^ 53)"
  from assms(1) have "round_to_double r = r" by (simp add: is_double_def)
  then have "r = of_int n / 2 ^ 53"
    by (simp add: round_to_double_pos [OF pos] q n_def)
  then have eq: "r * 9007199254740992 = of_int n" by simp
  from big have "9007199254740991 < r * 9007199254740992" by (simp add: field_simps)
  then have "9007199254740991 < rat_of_int n" by (simp only: eq)
  then have lo: "9007199254740991 < n" by simp
  from assms(3) have "r * 9007199254740992 < 9007199254740992" by simp
  then have "rat_of_int n < 9007199254740992" by (simp only: eq)
  then have "n < 9007199254740992" by simp
  with lo show False by simp
qed

lemma random_index_in_range:
  assumes "is_double r" and "0 \<le> r" and "r < 1"
  shows "0 \<le> \<lfloor>js_times r 62\<rfloor> \<and> \<lfloor>js_times r 62\<rfloor> < 62"
proof -
  from assms have "r \<le> 1 - 1 / 2 ^ 53" by (rule unit_double_bound)
  then have up: "r * 62 \<le> 62 - 62 / 2 ^ 53" by simp
  have lo: "0 \<le> r * 62" using assms(2) by simp
  have "0 \<le> round_to_double (r * 62)" using lo by (rule round_to_double_nonneg)
  moreover have "round_to_double (r * 62) < 62" using lo up by (rule round_to_double_below_62)
  ultimately show ?thesis by (simp add: js_times_def floor_less_iff)
qed

lemma is_double_half: "is_double (1 / 2)"
proof -
  have "round_to_double (1 / 2) = 1 / 2" by code_simp
  then show ?thesis by (simp add: is_double_def)
qed

text \<open>
  The model rounds where the code does: the draw \<open>4648877034705028 / 2 ^ 53\<close> times 62 is
  \<open>32 - 2\<close> to the \<open>-50\<close>, which is no double and rounds to 32, so the index is 32 (the
  character \<^verbatim>\<open>g\<close>) where the exact product has the floor 31.
\<close>

lemma rounded_product_example:
  "is_double (4648877034705028 / 2 ^ 53) \<and>
   \<lfloor>js_times (4648877034705028 / 2 ^ 53) 62\<rfloor> = 32 \<and>
   \<lfloor>(4648877034705028 / 2 ^ 53) * (62 :: rat)\<rfloor> = 31"
proof -
  have "round_to_double (4648877034705028 / 2 ^ 53) = 4648877034705028 / 2 ^ 53"
    by code_simp
  then have "is_double (4648877034705028 / 2 ^ 53)" by (simp add: is_double_def)
  moreover have "\<lfloor>js_times (4648877034705028 / 2 ^ 53) 62\<rfloor> = 32" by code_simp
  moreover have "\<lfloor>(4648877034705028 / 2 ^ 53) * (62 :: rat)\<rfloor> = 31" by code_simp
  ultimately show ?thesis by blast
qed

subsection \<open>Enum members and lookup by id\<close>

lemma member_Public [simp]: "AccessLevel_member ''Public'' = Some Public"
  by (simp add: AccessLevel_member_def)

lemma member_Institution [simp]: "AccessLevel_member ''Institution'' = None"
  by (simp add: AccessLevel_member_def)

lemma find_distinct_ids:
  "distinct (map project_id ps) \<Longrightarrow> r \<in> set ps \<Longrightarrow>
   find (\<lambda>p. project_id p = project_id r) ps = Some r"
proof (induction ps)
  case Nil
  then show ?case by simp
next
  case (Cons p ps)
  show ?case
  proof (cases "p = r")
    case True
    then show ?thesis by simp
  next
    case False
    with Cons.prems have in_tail: "r \<in> set ps" by simp
    from Cons.prems have "project_id p \<notin> project_id ` set ps" by simp
    with in_tail have "project_id p \<noteq> project_id r" by force
    with Cons.IH Cons.prems in_tail show ?thesis by simp
  qed
qed

subsection \<open>The maximum of the ids\<close>

lemma fold_max_bounds:
  assumes "\<forall>x\<in>set xs. 0 \<le> x \<and> x < (b::int)" and "0 < b"
  shows "0 \<le> fold max xs 0 \<and> fold max xs 0 < b"
proof -
  have eq: "fold max xs 0 = Max (set (0 # xs))"
    by (simp only: Max.set_eq_fold)
  have "0 \<le> Max (set (0 # xs))" by simp
  moreover have "Max (set (0 # xs)) < b"
    using assms by (subst Max_less_iff) auto
  ultimately show ?thesis by (simp only: eq)
qed

lemma fold_max_nonneg_ids:
  assumes "ps \<noteq> []" and "\<forall>p\<in>set ps. 0 \<le> project_id p"
  shows "fold max (map project_id ps) 0 = Max (project_id ` set ps)"
proof -
  have "fold max (map project_id ps) 0 = Max (set (0 # map project_id ps))"
    by (simp only: Max.set_eq_fold)
  also have "\<dots> = max 0 (Max (project_id ` set ps))"
    using assms(1) by simp
  also have "\<dots> = Max (project_id ` set ps)"
  proof -
    from assms obtain p where "p \<in> set ps" and "0 \<le> project_id p"
      by (cases ps) auto
    then have "project_id p \<le> Max (project_id ` set ps)"
      by (intro Max_ge finite_imageI imageI) simp_all
    with \<open>0 \<le> project_id p\<close> have "0 \<le> Max (project_id ` set ps)"
      by (rule order_trans)
    then show ?thesis by simp
  qed
  finally show ?thesis .
qed

subsection \<open>What \<^verbatim>\<open>createProject\<close> and \<^verbatim>\<open>addProject\<close> return\<close>

lemma createProject_returns:
  assumes "length ps < maxArguments e"
  shows "\<exists>r k'. createProject e ps k t d dep y al h a = Inr (r, k')"
  using assms by (simp add: createProject_def Let_def split_beta)

lemma createProject_id:
  assumes "createProject e ps k t d dep y al h a = Inr (r, k')"
  shows "project_id r = \<lfloor>js_plus (of_int (fold max (map project_id ps) 0)) 1\<rfloor>"
  using assms by (auto simp add: createProject_def Let_def split_beta split: if_splits)

lemma createProject_level:
  assumes "createProject e ps k t d dep y al h a = Inr (r, k')"
  shows "accessLevel r = al"
  using assms by (auto simp add: createProject_def Let_def split_beta split: if_splits)

lemma createProject_creator:
  assumes "createProject e ps k t d dep y al h a = Inr (r, k')"
  shows "authors r = [creatorAddress r] \<and> creatorAddress r \<noteq> []"
  using assms
  by (auto simp add: createProject_def Let_def truthy_def split_beta split: if_splits)

lemma addProject_front:
  assumes "addProject g p ps = (Resolved (), qs)"
  shows "\<exists>p'. qs = p' # ps \<and> p'\<lparr>aiSummary := aiSummary p\<rparr> = p"
  using assms
  by (auto simp add: addProject_def split: option.splits settled.splits if_splits)

lemma example_record_created:
  "createProject example_env example_store k ''T'' ''D'' 1 2024 level (Some ''QmX'')
     (Some ''0xAAA'') = Inr (example_record 2 level ''0xAAA'', k) \<and>
   createProject example_env example_store k ''T'' ''D'' 1 2024 level (Some ''QmX'')
     (Some ''0xBBB'') = Inr (example_record 2 level ''0xBBB'', k)"
proof -
  have "js_plus 1 1 = 2"
    using js_plus_one_exact [of 1] by simp
  then show ?thesis
    by (simp add: createProject_def example_env_def example_directory_def example_store_def
        example_project_def example_record_def truthy_def Let_def)
qed

lemma example_project_created:
  "createProject example_env [] k ''T'' ''D'' 1 2024 level (Some ''QmX'') (Some ''0xAAA'')
   = Inr (example_project level, k)"
proof -
  have "js_plus 0 1 = 1"
    using js_plus_one_exact [of 0] by simp
  then show ?thesis
    by (simp add: createProject_def example_env_def example_directory_def example_project_def
        truthy_def Let_def)
qed

lemma example_shadowing_store_eq:
  "example_shadowing_store level =
     [example_record 2 Private ''0xBBB'', example_record 2 level ''0xAAA'',
      example_project Public]"
  by (simp add: example_shadowing_store_def addProject_def example_failing_def
      example_record_def example_store_def)

subsection \<open>The placeholder hash\<close>

lemma length_characters: "length characters = 62"
  by (simp add: characters_def)

lemma loop_draws:
  "snd (generateMockIpfsHash_loop rnd k i res) = k + (44 - i)"
proof (induction rnd k i res rule: generateMockIpfsHash_loop.induct)
  case (1 rnd k i result)
  show ?case
  proof (cases "i < 44")
    case True
    with 1 show ?thesis
      by (subst generateMockIpfsHash_loop.simps) simp
  next
    case False
    then show ?thesis
      by (subst generateMockIpfsHash_loop.simps) simp
  qed
qed

lemma generateMockIpfsHash_draws: "snd (generateMockIpfsHash rnd k) = k + 44"
  by (simp add: generateMockIpfsHash_def loop_draws)

lemma charAt_random:
  assumes "is_double r" and "0 \<le> r" and "r < 1"
  shows "\<exists>c \<in> set characters.
           charAt characters \<lfloor>js_times r (of_nat (length characters))\<rfloor> = [c]"
proof -
  define i where "i = \<lfloor>js_times r 62\<rfloor>"
  from assms have lo: "0 \<le> i" and hi: "i < 62"
    unfolding i_def using random_index_in_range [of r] by simp_all
  from lo hi have "nat i < length characters" by (simp add: length_characters)
  then have "characters ! nat i \<in> set characters" by (rule nth_mem)
  moreover from lo hi have "charAt characters i = [characters ! nat i]"
    by (simp add: charAt_def length_characters)
  moreover have "\<lfloor>js_times r (of_nat (length characters))\<rfloor> = i"
    by (simp add: i_def length_characters)
  ultimately show ?thesis by metis
qed

lemma loop_shape:
  assumes "\<forall>j. is_double (rnd j) \<and> 0 \<le> rnd j \<and> rnd j < 1"
  shows "\<exists>s. fst (generateMockIpfsHash_loop rnd k i res) = res @ s \<and>
             length s = 44 - i \<and> set s \<subseteq> set characters"
  using assms
proof (induction rnd k i res rule: generateMockIpfsHash_loop.induct)
  case (1 rnd k i result)
  show ?case
  proof (cases "i < 44")
    case True
    from "1.prems" obtain c where c: "c \<in> set characters"
      and at: "charAt characters \<lfloor>js_times (rnd k) (of_nat (length characters))\<rfloor> = [c]"
      using charAt_random [of "rnd k"] by blast
    from "1.IH" [OF True "1.prems"] obtain s where
      s: "fst (generateMockIpfsHash_loop rnd (Suc k) (Suc i) (result @ [c])) = (result @ [c]) @ s"
      and len: "length s = 44 - Suc i" and sub: "set s \<subseteq> set characters"
      unfolding at by blast
    have step: "generateMockIpfsHash_loop rnd k i result =
        generateMockIpfsHash_loop rnd (Suc k) (Suc i) (result @ [c])"
      using True at by (subst generateMockIpfsHash_loop.simps) simp
    have "fst (generateMockIpfsHash_loop rnd k i result) = result @ (c # s)"
      using s step by simp
    moreover have "length (c # s) = 44 - i" using len True by simp
    moreover have "set (c # s) \<subseteq> set characters" using c sub by simp
    ultimately show ?thesis by blast
  next
    case False
    then show ?thesis
      by (subst generateMockIpfsHash_loop.simps) simp
  qed
qed

lemma generateMockIpfsHash_shape:
  assumes "\<forall>j. is_double (rnd j) \<and> 0 \<le> rnd j \<and> rnd j < 1"
  shows "\<exists>s. fst (generateMockIpfsHash rnd k) = ''Qm'' @ s \<and>
             length s = 44 \<and> set s \<subseteq> set characters"
  using loop_shape [OF assms, of k 0 "''Qm''"] by (simp add: generateMockIpfsHash_def)

lemma createProject_empty_hash:
  assumes "createProject e ps k t d dep y al (Some []) a = Inr (r, k')"
  shows "ipfsHash r = fst (generateMockIpfsHash (random e) k)"
  using assms
  by (auto simp add: createProject_def Let_def truthy_def split_beta split: if_splits)

lemma createProject_empty_author:
  assumes "createProject e ps k t d dep y al h (Some []) = Inr (r, k')"
  shows "creatorAddress r =
     ''0x'' @ substring (numberToString16 e
        (random e (if truthy (case h of None \<Rightarrow> [] | Some x \<Rightarrow> x) then k else k + 44))) 2 42"
  using assms generateMockIpfsHash_draws [of "random e" k]
  by (auto simp add: createProject_def Let_def truthy_def split_beta split: if_splits)

lemma createProject_absent_hash:
  "createProject e ps k t d dep y al (Some []) a = createProject e ps k t d dep y al None a"
  by (simp add: createProject_def)

lemma createProject_absent_author:
  "createProject e ps k t d dep y al h (Some []) = createProject e ps k t d dep y al h None"
  by (simp add: createProject_def)

text \<open>The model runs: with every draw one half, each of the 44 characters is \<^verbatim>\<open>f\<close>.\<close>

lemma example_index:
  "charAt characters \<lfloor>js_times (1 / 2) (of_nat (length characters))\<rfloor> = ''f''"
proof -
  have "\<lfloor>js_times (1 / 2) 62\<rfloor> = 31" by code_simp
  then show ?thesis by (simp add: charAt_def characters_def)
qed

lemma example_hash:
  "generateMockIpfsHash (random example_env) 0 =
     (''Qmffffffffffffffffffffffffffffffffffffffffffff'', 44)"
proof -
  have "generateMockIpfsHash (\<lambda>k. 1 / 2) 0 =
     (''Qmffffffffffffffffffffffffffffffffffffffffffff'', 44)"
    by (simp add: generateMockIpfsHash_def generateMockIpfsHash_loop.simps example_index
        eval_nat_numeral)
  moreover have "random example_env = (\<lambda>k. 1 / 2)" by (simp add: example_env_def)
  ultimately show ?thesis by simp
qed

section \<open>Visibility\<close>

text \<open>
  The store is the list \<open>ps\<close>. What the listing shows holds on every store.
  \<^verbatim>\<open>getProjectById\<close> returns the first record of the store with the id asked for, so a
  record behind another one with the same id is never reached; nothing in the service
  keeps the ids of the store distinct.
\<close>

text \<open>The code takes a viewer given as the empty string for an absent viewer.\<close>

lemma empty_viewer_is_absent:
  "getAllProjects lookup ps (Some []) = getAllProjects lookup ps None \<and>
   getProjectById lookup ps i (Some []) = getProjectById lookup ps i None"
  by (simp add: getAllProjects_def getProjectById_def truthy_def split: option.splits)

text \<open>
  What the code decides for a record with the middle tag of the enum: a present viewer
  sees it in the listing exactly when the viewer is one of its authors, whatever the
  directory says.
\<close>

lemma restricted_listed_iff_author:
  assumes "accessLevel r = Restricted" and "r \<in> set ps" and "a \<noteq> []"
  shows "r \<in> set (getAllProjects lookup ps (Some a)) \<longleftrightarrow> a \<in> set (authors r)"
  using assms by (simp add: getAllProjects_def Let_def truthy_def)

text \<open>
  Claim C1, at the input where the code departs from it. The record has the middle tag
  of the enum (value 1, \<^verbatim>\<open>Restricted\<close>), belongs to institution 1 and is authored by
  \<^verbatim>\<open>0xAAA\<close>; the viewer \<^verbatim>\<open>0xBBB\<close> resolves to institution 1 and is no author. Neither
  the listing nor the fetch by id shows the record: the third rule compares the tag with
  \<^verbatim>\<open>AccessLevel.Institution\<close>, which the enum does not declare, so it never applies.
\<close>

theorem restricted_hidden_from_institution_member:
  "getAllProjects example_directory [example_project Restricted] (Some ''0xBBB'') = [] \<and>
   getProjectById example_directory [example_project Restricted] 1 (Some ''0xBBB'') = None"
  by (simp add: getAllProjects_def getProjectById_def example_project_def
      example_directory_def truthy_def)




text \<open>
  Claim C3: a \<^verbatim>\<open>Private\<close> record is hidden from every viewer who is not one of its
  authors, the absent viewer included (\<open>v = None\<close>), whatever the directory says: on
  every store the listing leaves it out and no fetch by id returns it, and the fetch of
  its own id gives nothing.
\<close>

theorem private_hidden_from_non_authors:
  assumes "accessLevel r = Private" and "\<forall>a. v = Some a \<longrightarrow> a \<notin> set (authors r)"
  shows "r \<notin> set (getAllProjects lookup ps v) \<and>
         getProjectById lookup ps i v \<noteq> Some r \<and>
         (r \<in> set ps \<longrightarrow> distinct (map project_id ps) \<longrightarrow>
            getProjectById lookup ps (project_id r) v = None)"
proof -
  have listed: "r \<notin> set (getAllProjects lookup ps v)"
    using assms by (simp add: getAllProjects_def Let_def truthy_def split: option.splits)
  have never: "getProjectById lookup ps i v \<noteq> Some r"
    using assms
    by (auto simp add: getProjectById_def Let_def truthy_def split: option.splits if_splits)
  have own: "getProjectById lookup ps (project_id r) v = None"
    if "r \<in> set ps" and "distinct (map project_id ps)"
    using assms that
    by (simp add: getProjectById_def find_distinct_ids Let_def truthy_def split: option.splits)
  from listed never own show ?thesis by blast
qed

theorem private_hidden_from_non_authors_witness:
  "example_project Private
     \<notin> set (getAllProjects example_directory [example_project Private] (Some ''0xBBB'')) \<and>
   getProjectById example_directory [example_project Private] 1 (Some ''0xBBB'') = None"
  using private_hidden_from_non_authors
    [of "example_project Private" "Some ''0xBBB''" example_directory
        "[example_project Private]" 1]
  by (simp add: example_project_def)




section \<open>Identifier assignment\<close>

text \<open>
  Claim C5, as stated, on the store whose one record has the id \<open>2\<close> to the 53: the sum
  of that id and 1 is no double and rounds back to it, so the record
  \<^verbatim>\<open>createProject\<close> returns has the id \<open>9007199254740992\<close>, the largest id of the store
  and not one more.
\<close>

theorem large_id_not_incremented:
  "createProject example_env example_large_id_store 0 ''T'' ''D'' 1 2024 Public
     (Some ''QmX'') (Some ''0xAAA'')
   = Inr (example_record 9007199254740992 Public ''0xAAA'', 0)"
  by (simp add: createProject_def example_large_id_store_def example_record_def
      example_env_def example_directory_def truthy_def Let_def js_plus_one_two53)

text \<open>
  Claim C5, amended: on a store whose ids are integers from 0 to \<open>2 ^ 53 - 1\<close> and which
  has fewer records than the engine takes arguments, \<^verbatim>\<open>createProject\<close> returns a record
  whose id is one more than the largest id in the store, and 1 when the store is empty.
  On the empty store, \<^verbatim>\<open>createProject("T","D",1,2024,Public)\<close> with neither hash nor
  author returns a record with id 1, access level \<^verbatim>\<open>Public\<close> and exactly one author,
  the fabricated identity: \<^verbatim>\<open>0x\<close> followed by the characters 2 to 41 of the base-16
  text of the draw that follows the 44 draws of the placeholder hash.
\<close>

theorem createProject_next_id:
  assumes "\<forall>p\<in>set ps. 0 \<le> project_id p \<and> project_id p < 2 ^ 53"
    and "length ps < maxArguments e"
  shows "(\<exists>r k'. createProject e ps k t d dep y al h a = Inr (r, k') \<and>
            project_id r = (if ps = [] then 1 else Max (project_id ` set ps) + 1)) \<and>
         (\<exists>r k'. createProject e [] k ''T'' ''D'' 1 2024 Public None None = Inr (r, k') \<and>
            project_id r = 1 \<and> accessLevel r = Public \<and>
            authors r = [''0x'' @ substring (numberToString16 e (random e (k + 44))) 2 42])"
proof -
  have next_id: "project_id r = fold max (map project_id qs) 0 + 1"
    if "createProject e qs k t' d' dep' y' al' h' a' = Inr (r, k')"
      and "\<forall>p\<in>set qs. 0 \<le> project_id p \<and> project_id p < 2 ^ 53"
    for qs t' d' dep' y' al' h' a' r k'
  proof -
    define m where "m = fold max (map project_id qs) 0"
    have "0 \<le> m \<and> m < 2 ^ 53"
      unfolding m_def using that(2) by (intro fold_max_bounds) auto
    then have "js_plus (of_int m) 1 = of_int (m + 1)"
      by (simp add: js_plus_one_exact)
    then have "\<lfloor>js_plus (of_int m) 1\<rfloor> = m + 1"
      by (simp only: floor_of_int)
    then show ?thesis
      using createProject_id [OF that(1)] by (simp add: m_def)
  qed
  obtain r k' where r: "createProject e ps k t d dep y al h a = Inr (r, k')"
    using createProject_returns [OF assms(2)] by blast
  have "project_id r = (if ps = [] then 1 else Max (project_id ` set ps) + 1)"
  proof (cases "ps = []")
    case True
    with next_id [OF r assms(1)] show ?thesis by simp
  next
    case False
    from assms(1) have "\<forall>p\<in>set ps. 0 \<le> project_id p" by simp
    with False have "fold max (map project_id ps) 0 = Max (project_id ` set ps)"
      by (rule fold_max_nonneg_ids)
    with False next_id [OF r assms(1)] show ?thesis by simp
  qed
  with r have first: "\<exists>r k'. createProject e ps k t d dep y al h a = Inr (r, k') \<and>
            project_id r = (if ps = [] then 1 else Max (project_id ` set ps) + 1)"
    by blast
  from assms(2) have "length ([] :: ProjectData list) < maxArguments e" by simp
  then obtain s j where s: "createProject e [] k ''T'' ''D'' 1 2024 Public None None = Inr (s, j)"
    using createProject_returns by blast
  have "project_id s = 1" using next_id [OF s] by simp
  moreover have "accessLevel s = Public" using s by (rule createProject_level)
  moreover have "authors s = [creatorAddress s]"
    using createProject_creator [OF s] by simp
  moreover have "creatorAddress s =
      ''0x'' @ substring (numberToString16 e (random e (k + 44))) 2 42"
    using createProject_empty_author [of e "[]" k "''T''" "''D''" 1 2024 Public None s j] s
    by (simp add: createProject_absent_author truthy_def)
  ultimately show ?thesis using first s by auto
qed

theorem createProject_next_id_witness:
  "createProject example_env example_store 0 ''T'' ''D'' 1 2024 Private (Some ''QmX'')
     (Some ''0xAAA'') = Inr (example_record 2 Private ''0xAAA'', 0) \<and>
   project_id (example_record 2 Private ''0xAAA'') = Max (project_id ` set example_store) + 1"
  using createProject_next_id
    [of example_store example_env 0 "''T''" "''D''" 1 2024 Private "Some ''QmX''"
        "Some ''0xAAA''"]
    example_record_created [of 0 Private]
  by (simp add: example_store_def example_project_def example_record_def example_env_def)

section \<open>Update\<close>

text \<open>
  Claim C6: when no record of the store has the id of \<open>u\<close>, \<^verbatim>\<open>updateProject(u)\<close> leaves
  the collection as it was: the same records in the same order. The function has no
  failing branch; it returns nothing but the collection it writes.
\<close>

theorem updateProject_unknown_id:
  assumes "project_id u \<notin> project_id ` set ps"
  shows "updateProject u ps = ps"
  unfolding updateProject_def
proof (rule map_idI)
  fix p assume "p \<in> set ps"
  then have "project_id p \<in> project_id ` set ps" by (rule imageI)
  with assms have "project_id p \<noteq> project_id u" by metis
  then show "(if project_id p = project_id u then u else p) = p" by simp
qed

theorem updateProject_unknown_id_witness:
  "updateProject (example_project Private\<lparr>project_id := 9\<rparr>) example_store = example_store"
  using updateProject_unknown_id [of "example_project Private\<lparr>project_id := 9\<rparr>" example_store]
  by (simp add: example_store_def example_project_def)

section \<open>Insertion and enrichment\<close>

text \<open>
  Claim C7, as stated, at a summarizer whose call never settles: the record has no
  summary, so \<^verbatim>\<open>addProject\<close> awaits the call, no time bound ends the wait, and the
  insertion behind the \<^verbatim>\<open>await\<close> is never reached. The store stays as it was and
  \<^verbatim>\<open>addProject\<close> itself never settles.
\<close>

theorem pending_summarizer_blocks_insert:
  "addProject example_pending (example_project Private) example_store
     = (Pending, example_store)"
  by (simp add: addProject_def example_pending_def example_project_def)

text \<open>
  Claim C7, amended: when the summarizer's call settles, or is not made because the
  record has a summary, \<^verbatim>\<open>addProject\<close> resolves and the store is the former collection
  with one record \<open>p'\<close> in front, equal to the record passed in every field but the
  summary. When the record has no summary (none, or an empty one) and the summarizer
  resolves with a non-empty text, \<open>p'\<close> carries that text; when the summarizer rejects or
  resolves with nothing (or with an empty text), \<open>p'\<close> is the record as passed and the
  rejection goes no further; a record that has a summary is stored as passed.
\<close>

theorem addProject_inserts_when_settled:
  assumes "g project \<noteq> Pending \<or> (\<exists>s. aiSummary project = Some s \<and> s \<noteq> [])"
  shows "\<exists>p'. addProject g project ps = (Resolved (), p' # ps) \<and>
        p'\<lparr>aiSummary := aiSummary project\<rparr> = project \<and>
        (aiSummary project = None \<or> aiSummary project = Some [] \<longrightarrow>
           (\<forall>s. g project = Resolved (Some s) \<longrightarrow> s \<noteq> [] \<longrightarrow> aiSummary p' = Some s)) \<and>
        (aiSummary project = None \<or> aiSummary project = Some [] \<longrightarrow>
           g project = Resolved None \<or> g project = Resolved (Some []) \<or>
             (\<exists>err. g project = Rejected err) \<longrightarrow> p' = project) \<and>
        (\<forall>s. aiSummary project = Some s \<longrightarrow> s \<noteq> [] \<longrightarrow> p' = project)"
  using assms
  by (auto simp add: addProject_def truthy_def split: option.splits settled.splits)

theorem addProject_inserts_when_settled_witness:
  "addProject example_failing (example_project Private) example_store
     = (Resolved (), example_project Private # example_store) \<and>
   addProject example_summarizing (example_project Private) example_store
     = (Resolved (), example_project Private\<lparr>aiSummary := Some ''S''\<rparr> # example_store)"
  using addProject_inserts_when_settled
      [of example_failing "example_project Private" example_store]
    addProject_inserts_when_settled
      [of example_summarizing "example_project Private" example_store]
  by (simp add: addProject_def truthy_def example_failing_def example_summarizing_def
      example_project_def)

section \<open>Round trip\<close>

text \<open>
  Claim C8: let \<open>r\<close> be the record \<^verbatim>\<open>createProject\<close> returns. After \<^verbatim>\<open>addProject(r)\<close> on
  any store \<open>qs\<close> (the call has resolved and left the store \<open>qs'\<close>), the fetch of \<open>r\<close>'s
  id by \<open>r\<close>'s creator returns a record equal to \<open>r\<close> in every field but the summary,
  whatever the directory and the summarizer do.
\<close>

theorem created_record_roundtrip:
  assumes "createProject e ps k t d dep y al h a = Inr (r, k')"
    and "addProject g r qs = (Resolved (), qs')"
  shows "\<exists>r'. getProjectById lookup qs' (project_id r) (Some (creatorAddress r)) = Some r' \<and>
              r'\<lparr>aiSummary := aiSummary r\<rparr> = r"
proof -
  obtain r' where qs': "qs' = r' # qs" and same: "r'\<lparr>aiSummary := aiSummary r\<rparr> = r"
    using addProject_front [OF assms(2)] by blast
  from same have id': "project_id r' = project_id r"
    by (metis ProjectData.select_convs(1) ProjectData.surjective ProjectData.update_convs(12))
  from same have authors': "authors r' = authors r"
    by (metis ProjectData.select_convs(9) ProjectData.surjective ProjectData.update_convs(12))
  have creator: "authors r = [creatorAddress r]" "creatorAddress r \<noteq> []"
    using createProject_creator [OF assms(1)] by simp_all
  have "getProjectById lookup qs' (project_id r) (Some (creatorAddress r)) = Some r'"
    by (simp add: qs' getProjectById_def id' authors' creator truthy_def)
  with same show ?thesis by blast
qed

theorem created_record_roundtrip_witness:
  "createProject example_env [] 0 ''T'' ''D'' 1 2024 Private (Some ''QmX'') (Some ''0xAAA'')
     = Inr (example_project Private, 0) \<and>
   addProject example_summarizing (example_project Private) example_store
     = (Resolved (), example_project Private\<lparr>aiSummary := Some ''S''\<rparr> # example_store) \<and>
   getProjectById example_directory
     (example_project Private\<lparr>aiSummary := Some ''S''\<rparr> # example_store)
     1 (Some ''0xAAA'') = Some (example_project Private\<lparr>aiSummary := Some ''S''\<rparr>)"
proof -
  have created: "createProject example_env [] 0 ''T'' ''D'' 1 2024 Private (Some ''QmX'')
      (Some ''0xAAA'') = Inr (example_project Private, 0)"
    by (rule example_project_created)
  have added: "addProject example_summarizing (example_project Private) example_store
      = (Resolved (), example_project Private\<lparr>aiSummary := Some ''S''\<rparr> # example_store)"
    by (simp add: addProject_def example_summarizing_def example_project_def truthy_def)
  from created_record_roundtrip [OF created added, of example_directory] created added
  show ?thesis
    by (simp add: getProjectById_def example_project_def example_store_def truthy_def)
qed

section \<open>Creations that overlap\<close>

text \<open>
  Claim C9, at two creations that overlap: \<^verbatim>\<open>0xAAA\<close> and \<^verbatim>\<open>0xBBB\<close> both call
  \<^verbatim>\<open>createProject\<close> on the store whose one record has the id 1, before either record is
  added (the first caller is still awaiting the summarizer inside \<^verbatim>\<open>addProject\<close>). Both
  records get the id 2, and the store ends with two records of that id.
\<close>

theorem overlapping_creations_share_id:
  "createProject example_env example_store 0 ''T'' ''D'' 1 2024 Public (Some ''QmX'')
     (Some ''0xAAA'') = Inr (example_record 2 Public ''0xAAA'', 0) \<and>
   createProject example_env example_store 0 ''T'' ''D'' 1 2024 Private (Some ''QmX'')
     (Some ''0xBBB'') = Inr (example_record 2 Private ''0xBBB'', 0) \<and>
   map project_id (example_shadowing_store Public) = [2, 2, 1]"
  using example_record_created [of 0 Public] example_record_created [of 0 Private]
  by (simp add: example_shadowing_store_eq example_record_def example_project_def)

section \<open>Empty arguments\<close>

text \<open>
  Claim C10: \<^verbatim>\<open>createProject\<close> takes an empty string for an absent argument. Called with
  the empty hash it does what it does without a hash, and the record it returns has the
  hash \<^verbatim>\<open>Qm\<close> followed by 44 characters of the alphabet \<^verbatim>\<open>A-Z a-z 0-9\<close>; called with
  the empty author it does what it does without an author, and in the record it returns
  the fabricated identity (\<^verbatim>\<open>0x\<close> and the characters 2 to 41 of the base-16 text of
  the next draw) is the only author and the creator. \<^verbatim>\<open>Math.random()\<close> returns doubles
  from 0 up to, not including, 1, and the call returns: the store has fewer records than
  the engine takes arguments.
\<close>

theorem empty_arguments_are_absent:
  assumes "\<forall>j. is_double (random e j) \<and> 0 \<le> random e j \<and> random e j < 1"
    and "length ps < maxArguments e"
  shows "createProject e ps k t d dep y al (Some []) a = createProject e ps k t d dep y al None a \<and>
         createProject e ps k t d dep y al h (Some []) = createProject e ps k t d dep y al h None \<and>
         (\<exists>r k'. createProject e ps k t d dep y al (Some []) a = Inr (r, k') \<and>
            (\<exists>s. ipfsHash r = ''Qm'' @ s \<and> length s = 44 \<and> set s \<subseteq> set characters)) \<and>
         (\<exists>r k'. createProject e ps k t d dep y al h (Some []) = Inr (r, k') \<and>
            authors r = [creatorAddress r] \<and>
            creatorAddress r =
              ''0x'' @ substring (numberToString16 e
                (random e (if truthy (case h of None \<Rightarrow> [] | Some x \<Rightarrow> x) then k else k + 44)))
                2 42)"
proof -
  obtain r k' where r: "createProject e ps k t d dep y al (Some []) a = Inr (r, k')"
    using createProject_returns [OF assms(2)] by blast
  have "\<exists>s. ipfsHash r = ''Qm'' @ s \<and> length s = 44 \<and> set s \<subseteq> set characters"
    unfolding createProject_empty_hash [OF r]
    by (rule generateMockIpfsHash_shape [OF assms(1)])
  with r have hash: "\<exists>r k'. createProject e ps k t d dep y al (Some []) a = Inr (r, k') \<and>
      (\<exists>s. ipfsHash r = ''Qm'' @ s \<and> length s = 44 \<and> set s \<subseteq> set characters)"
    by blast
  obtain s j where s: "createProject e ps k t d dep y al h (Some []) = Inr (s, j)"
    using createProject_returns [OF assms(2)] by blast
  have "authors s = [creatorAddress s]" using createProject_creator [OF s] by simp
  with s createProject_empty_author [OF s]
  have author: "\<exists>r k'. createProject e ps k t d dep y al h (Some []) = Inr (r, k') \<and>
      authors r = [creatorAddress r] \<and>
      creatorAddress r =
        ''0x'' @ substring (numberToString16 e
          (random e (if truthy (case h of None \<Rightarrow> [] | Some x \<Rightarrow> x) then k else k + 44)))
          2 42"
    by blast
  from hash author createProject_absent_hash [of e ps k t d dep y al a]
    createProject_absent_author [of e ps k t d dep y al h]
  show ?thesis by blast
qed

theorem empty_arguments_are_absent_witness:
  "createProject example_env [] 0 ''T'' ''D'' 1 2024 Public (Some []) (Some []) =
     Inr (\<lparr>project_id = 1, title = ''T'', description = ''D'', departmentId = 1,
            institutionId = 1, year = 2024, accessLevel = Public,
            ipfsHash = ''Qmffffffffffffffffffffffffffffffffffffffffffff'',
            authors = [''0x8''], uploadDate = 1700000000000, creatorAddress = ''0x8'',
            aiSummary = None\<rparr>, 45)"
proof -
  have "js_plus 0 1 = 1" using js_plus_one_exact [of 0] by simp
  with empty_arguments_are_absent
    [of example_env "[]" 0 "''T''" "''D''" 1 2024 Public "Some []" "Some []"]
    example_hash
  show ?thesis
    by (simp add: createProject_def example_env_def example_directory_def substring_def
        truthy_def Let_def is_double_half)
qed

end
